theory Spec2Isabelle
  imports Main "HOL-Library.Sublist"
begin

section \<open>Go values used by sriovnet\_switchdev.go\<close>

text \<open>
  A Go string is a sequence of bytes, here a \<open>string\<close> (a list of 8-bit characters).
  A Go \<open>int\<close> is modelled as an \<open>int\<close> that stays within the 64-bit range
  \<open>minInt .. maxInt\<close> (the size of \<open>int\<close> on the 64-bit Linux targets of the
  repository), and a \<open>uint64\<close> as an \<open>int\<close> within \<open>0 .. maxUint64\<close>; the only
  place where the ranges matter is \<open>strconv.Atoi\<close>, whose overflow checks are written
  out below.
\<close>

definition maxUint64 :: int where
  "maxUint64 = 2 ^ 64 - 1"

definition maxInt :: int where
  "maxInt = 2 ^ 63 - 1"

definition minInt :: int where
  "minInt = - (2 ^ 63)"

datatype numErr = ErrSyntax | ErrRange

text \<open>
  An error of the file-system capability \<open>utilfs.Fs\<close>: whether
  \<open>errors.Is(err, os.ErrNotExist)\<close> holds of it, and its \<open>Error()\<close> text.
\<close>

datatype fsError = FsErr bool string

fun IsNotExist :: "fsError \<Rightarrow> bool" where
  "IsNotExist (FsErr b t) = b"

fun Error :: "fsError \<Rightarrow> string" where
  "Error (FsErr b t) = t"

text \<open>
  The error values of the file: an error of the file system handed on as it is, a
  \<open>*strconv.NumError\<close> (function, input, kind), and an error built by \<open>fmt.Errorf\<close>
  (its message). \<open>RuntimePanic\<close> is not an error value returned to the caller: it stands
  for the run-time panic of an index expression out of range.
\<close>

datatype error =
    FsError fsError
  | NumError string string numErr
  | Errorf string
  | RuntimePanic string

subsection \<open>strings.TrimSpace\<close>

text \<open>
  \<open>strings.TrimSpace\<close> removes all leading and all trailing white space, as defined by
  \<open>unicode.IsSpace\<close>, from the UTF-8 text of the string. The white-space code points are
  U+0009..U+000D, U+0020, U+0085, U+00A0, U+1680, U+2000..U+200A, U+2028, U+2029, U+202F,
  U+205F and U+3000; they are listed here by their UTF-8 encodings. A rune is decoded at
  the start (at the end) of a string exactly when the string starts (ends) with the
  encoding of that rune; a byte sequence that is not valid UTF-8 decodes to U+FFFD, which
  is not white space.
\<close>

definition asciiSpace :: "string list" where
  "asciiSpace = [[CHR 0x09], [CHR 0x0A], [CHR 0x0B], [CHR 0x0C], [CHR 0x0D], [CHR 0x20]]"

definition unicodeSpace :: "string list" where
  "unicodeSpace =
     [[CHR 0xC2, CHR 0x85], [CHR 0xC2, CHR 0xA0],
      [CHR 0xE1, CHR 0x9A, CHR 0x80],
      [CHR 0xE2, CHR 0x80, CHR 0x80], [CHR 0xE2, CHR 0x80, CHR 0x81],
      [CHR 0xE2, CHR 0x80, CHR 0x82], [CHR 0xE2, CHR 0x80, CHR 0x83],
      [CHR 0xE2, CHR 0x80, CHR 0x84], [CHR 0xE2, CHR 0x80, CHR 0x85],
      [CHR 0xE2, CHR 0x80, CHR 0x86], [CHR 0xE2, CHR 0x80, CHR 0x87],
      [CHR 0xE2, CHR 0x80, CHR 0x88], [CHR 0xE2, CHR 0x80, CHR 0x89],
      [CHR 0xE2, CHR 0x80, CHR 0x8A],
      [CHR 0xE2, CHR 0x80, CHR 0xA8], [CHR 0xE2, CHR 0x80, CHR 0xA9],
      [CHR 0xE2, CHR 0x80, CHR 0xAF],
      [CHR 0xE2, CHR 0x81, CHR 0x9F],
      [CHR 0xE3, CHR 0x80, CHR 0x80]]"

definition spaceRunes :: "string list" where
  "spaceRunes = asciiSpace @ unicodeSpace"

lemma spaceRunes_nonempty: "e \<in> set spaceRunes \<Longrightarrow> e \<noteq> []"
  by (auto simp: spaceRunes_def asciiSpace_def unicodeSpace_def)

lemma find_SomeD: "find P xs = Some x \<Longrightarrow> x \<in> set xs \<and> P x"
  by (induction xs) (auto split: if_splits)

function TrimLeftSpace :: "string \<Rightarrow> string" where
  "TrimLeftSpace s =
     (case find (\<lambda>e. prefix e s) spaceRunes of
        None \<Rightarrow> s
      | Some e \<Rightarrow> TrimLeftSpace (drop (length e) s))"
  by pat_completeness auto
termination
proof (relation "measure length")
  show "wf (measure length)" by simp
next
  fix s e
  assume "find (\<lambda>e. prefix e s) spaceRunes = Some e"
  then have "e \<in> set spaceRunes" and "prefix e s"
    by (auto dest: find_SomeD)
  then have "e \<noteq> []" and "length e \<le> length s"
    by (auto simp: spaceRunes_nonempty prefix_length_le)
  then show "(drop (length e) s, s) \<in> measure length"
    by (cases e) auto
qed

function TrimRightSpace :: "string \<Rightarrow> string" where
  "TrimRightSpace s =
     (case find (\<lambda>e. suffix e s) spaceRunes of
        None \<Rightarrow> s
      | Some e \<Rightarrow> TrimRightSpace (take (length s - length e) s))"
  by pat_completeness auto
termination
proof (relation "measure length")
  show "wf (measure length)" by simp
next
  fix s e
  assume "find (\<lambda>e. suffix e s) spaceRunes = Some e"
  then have "e \<in> set spaceRunes" and "suffix e s"
    by (auto dest: find_SomeD)
  then have "e \<noteq> []" and "length e \<le> length s"
    by (auto simp: spaceRunes_nonempty suffix_length_le)
  then show "(take (length s - length e) s, s) \<in> measure length"
    by (cases e) auto
qed

declare TrimLeftSpace.simps [simp del]
declare TrimRightSpace.simps [simp del]

definition TrimSpace :: "string \<Rightarrow> string" where
  "TrimSpace s = TrimRightSpace (TrimLeftSpace s)"

subsection \<open>strconv.Atoi\<close>

text \<open>
  \<open>strconv.Atoi(s)\<close> is \<open>ParseInt(s, 10, 0)\<close> with the result converted to \<open>int\<close>
  (its fast path for short strings computes the same values). The digit loop of
  \<open>ParseUint\<close> stops with a range error as soon as the value leaves the 64-bit range,
  before it has looked at the remaining bytes; a range error carries the largest
  magnitude of the sign, a syntax error carries 0.
\<close>

definition isDigit :: "char \<Rightarrow> bool" where
  "isDigit c \<longleftrightarrow> 48 \<le> (of_char c :: int) \<and> (of_char c :: int) \<le> 57"

definition digitVal :: "char \<Rightarrow> int" where
  "digitVal c = of_char c - 48"

fun ParseUint_loop :: "int \<Rightarrow> string \<Rightarrow> int \<times> numErr option" where
  "ParseUint_loop n [] = (n, None)"
| "ParseUint_loop n (c # cs) =
     (if \<not> isDigit c then (0, Some ErrSyntax)
      else if n \<ge> maxUint64 div 10 + 1 then (maxUint64, Some ErrRange)
      else let n1 = n * 10 + digitVal c in
        if n1 > maxUint64 then (maxUint64, Some ErrRange)
        else ParseUint_loop n1 cs)"

definition ParseUint :: "string \<Rightarrow> int \<times> numErr option" where
  "ParseUint s = (if s = [] then (0, Some ErrSyntax) else ParseUint_loop 0 s)"

definition ParseInt :: "string \<Rightarrow> int \<times> numErr option" where
  "ParseInt s0 =
     (if s0 = [] then (0, Some ErrSyntax)
      else
        let neg = (hd s0 = CHR ''-'');
            s = (if hd s0 = CHR ''+'' \<or> hd s0 = CHR ''-'' then tl s0 else s0);
            (un, err) = ParseUint s;
            cutoff = (2 ^ 63 :: int)
        in if err = Some ErrSyntax then (0, Some ErrSyntax)
           else if \<not> neg \<and> un \<ge> cutoff then (cutoff - 1, Some ErrRange)
           else if neg \<and> un > cutoff then (- cutoff, Some ErrRange)
           else (if neg then - un else un, None))"

definition Atoi :: "string \<Rightarrow> int \<times> error option" where
  "Atoi s =
     (case ParseInt s of
        (i, None) \<Rightarrow> (i, None)
      | (i, Some k) \<Rightarrow> (i, Some (NumError ''Atoi'' s k)))"

subsection \<open>The regular expressions\<close>

text \<open>
  The three patterns are anchored at both ends (\<open>$\<close> without the multi-line flag is the
  end of the text) and \<open>\d\<close> is an ASCII digit, so each match is the whole string and
  is found by reading the string from left to right. \<open>FindStringSubmatch\<close> returns the
  whole match followed by the captured groups, or \<open>nil\<close> (here the empty list).
\<close>

text \<open>The optional, non-capturing group \<open>(?:c\d+)?\<close>: what is left of the string after it.\<close>

definition skipController :: "string \<Rightarrow> string" where
  "skipController s =
     (case s of
        [] \<Rightarrow> s
      | c # r \<Rightarrow> if c = CHR ''c'' \<and> takeWhile isDigit r \<noteq> [] then dropWhile isDigit r else s)"

definition stripPrefix :: "string \<Rightarrow> string \<Rightarrow> string option" where
  "stripPrefix p s = (if prefix p s then Some (drop (length p) s) else None)"

text \<open>\<open>physPortRepRegex = ^p(\d+)$\<close>\<close>

definition physPortRepRegex_MatchString :: "string \<Rightarrow> bool" where
  "physPortRepRegex_MatchString s =
     (case stripPrefix ''p'' s of
        None \<Rightarrow> False
      | Some r \<Rightarrow> r \<noteq> [] \<and> list_all isDigit r)"

text \<open>\<open>pfPortRepRegex = ^(?:c\d+)?pf(\d+)$\<close>\<close>

definition pfPortRepRegex_MatchString :: "string \<Rightarrow> bool" where
  "pfPortRepRegex_MatchString s =
     (case stripPrefix ''pf'' (skipController s) of
        None \<Rightarrow> False
      | Some r \<Rightarrow> r \<noteq> [] \<and> list_all isDigit r)"

text \<open>\<open>vfPortRepRegex = ^(?:c\d+)?pf(\d+)vf(\d+)$\<close>\<close>

definition vfPortRepRegex_FindStringSubmatch :: "string \<Rightarrow> string list" where
  "vfPortRepRegex_FindStringSubmatch s =
     (case stripPrefix ''pf'' (skipController s) of
        None \<Rightarrow> []
      | Some r1 \<Rightarrow>
          let x = takeWhile isDigit r1; r2 = dropWhile isDigit r1 in
          if x = [] then []
          else (case stripPrefix ''vf'' r2 of
                  None \<Rightarrow> []
                | Some y \<Rightarrow> if y \<noteq> [] \<and> list_all isDigit y then [s, x, y] else []))"

section \<open>parsePortName\<close>

definition parsePortName :: "string \<Rightarrow> int \<times> int \<times> error option" where
  "parsePortName physPortName0 =
     (let pfRepIndex = - 1;
          vfRepIndex = - 1;
          physPortName = TrimSpace physPortName0;
          (physPortNameInt, err) = Atoi physPortName
      in if err = None then (pfRepIndex, physPortNameInt, None)
         else
           let matches = vfPortRepRegex_FindStringSubmatch physPortName in
           if length matches \<noteq> 3
           then (pfRepIndex, vfRepIndex,
                 Some (Errorf (''failed to parse physPortName '' @ physPortName)))
           else
             let (pfRepIndex', err1) = Atoi (matches ! 1) in
             if err1 = None
             then (let (vfRepIndex', err2) = Atoi (matches ! 2)
                   in (pfRepIndex', vfRepIndex', err2))
             else (pfRepIndex', vfRepIndex, err1))"

section \<open>The file-system capability\<close>

subsection \<open>filepath.Join\<close>

text \<open>
  \<open>filepath.Join\<close> drops the leading empty elements, joins the rest with a slash and
  cleans the result (\<open>filepath.Clean\<close>): repeated slashes and \<open>.\<close> elements go away,
  a \<open>..\<close> element removes the element before it (or is dropped at the root), and the
  empty result is \<open>.\<close>.
\<close>

fun splitSlash :: "string \<Rightarrow> string list" where
  "splitSlash [] = [[]]"
| "splitSlash (c # cs) =
     (if c = CHR ''/'' then [] # splitSlash cs
      else (case splitSlash cs of [] \<Rightarrow> [[c]] | e # es \<Rightarrow> (c # e) # es))"

fun joinSlash :: "string list \<Rightarrow> string" where
  "joinSlash [] = []"
| "joinSlash [x] = x"
| "joinSlash (x # y # ys) = x @ ''/'' @ joinSlash (y # ys)"

fun cleanElems :: "bool \<Rightarrow> string list \<Rightarrow> string list \<Rightarrow> string list" where
  "cleanElems rooted out [] = rev out"
| "cleanElems rooted out (e # es) =
     (if e = [] \<or> e = ''.'' then cleanElems rooted out es
      else if e = ''..'' then
        (case out of
           [] \<Rightarrow> if rooted then cleanElems rooted [] es else cleanElems rooted [''..''] es
         | prev # rest \<Rightarrow>
             if prev = ''..'' then cleanElems rooted (''..'' # out) es
             else cleanElems rooted rest es)
      else cleanElems rooted (e # out) es)"

definition Clean :: "string \<Rightarrow> string" where
  "Clean path =
     (let rooted = prefix ''/'' path;
          body = joinSlash (cleanElems rooted [] (splitSlash path))
      in if rooted then ''/'' @ body
         else if body = [] then ''.'' else body)"

definition Join :: "string list \<Rightarrow> string" where
  "Join elem =
     (case dropWhile (\<lambda>e. e = []) elem of
        [] \<Rightarrow> []
      | e # es \<Rightarrow> Clean (joinSlash (e # es)))"

subsection \<open>The environment of a call\<close>

text \<open>
  The file is written against the interface \<open>utilfs.Fs\<close> (\<open>ReadFile\<close>, \<open>ReadDir\<close>,
  \<open>Stat\<close>), the package variables \<open>NetSysDir\<close> and \<open>PciSysDir\<close> and the helper
  \<open>getPCIFromDeviceName\<close>, all declared in other files of the package. They are the
  parameters of the model: every theorem below holds for every file system, for both
  directories and for every behaviour of the helper. \<open>ReadDir\<close> yields the names of the
  entries (the code uses nothing else of an entry), \<open>Stat\<close> yields its error only
  (the code discards the file information).
\<close>

record env =
  NetSysDir :: string
  PciSysDir :: string
  ReadFile :: "string \<Rightarrow> fsError + string"
  ReadDir :: "string \<Rightarrow> fsError + string list"
  Stat :: "string \<Rightarrow> fsError option"
  getPCIFromDeviceName :: "string \<Rightarrow> error + string"

text \<open>
  Every function that touches the file system returns, beside its result, the list of
  the calls it has made, in the order it made them.
\<close>

datatype call =
    ReadFileCall string
  | ReadDirCall string
  | StatCall string
  | GetPCIFromDeviceNameCall string

definition netdevPhysSwitchID :: string where
  "netdevPhysSwitchID = ''phys_switch_id''"

definition netdevPhysPortName :: string where
  "netdevPhysPortName = ''phys_port_name''"

section \<open>isSwitchdev and getNetDevPhysPortName\<close>

definition isSwitchdev :: "env \<Rightarrow> string \<Rightarrow> bool \<times> call list" where
  "isSwitchdev env netdevice =
     (let swIDFile = Join [NetSysDir env, netdevice, netdevPhysSwitchID] in
      (case ReadFile env swIDFile of
         Inl err \<Rightarrow> False
       | Inr physSwitchID \<Rightarrow> physSwitchID \<noteq> [],
       [ReadFileCall swIDFile]))"

definition getNetDevPhysPortName :: "env \<Rightarrow> string \<Rightarrow> (fsError + string) \<times> call list" where
  "getNetDevPhysPortName env netDev =
     (let devicePortNameFile = Join [NetSysDir env, netDev, netdevPhysPortName] in
      (case ReadFile env devicePortNameFile of
         Inl err \<Rightarrow> Inl err
       | Inr physPortName \<Rightarrow> Inr (TrimSpace physPortName),
       [ReadFileCall devicePortNameFile]))"

section \<open>GetUplinkRepresentor\<close>

text \<open>
  One round of the loop over the directory entries: \<open>Some name\<close> when the round returns
  the device, \<open>None\<close> when it goes on to the next entry.
\<close>

definition GetUplinkRepresentor_iter :: "env \<Rightarrow> string \<Rightarrow> string option \<times> call list" where
  "GetUplinkRepresentor_iter env device =
     (let (sw, t1) = isSwitchdev env device in
      if sw then
        (let (r, t2) = getNetDevPhysPortName env device in
         case r of
           Inr devicePhysPortName \<Rightarrow>
             if \<not> physPortRepRegex_MatchString devicePhysPortName
             then (None, t1 @ t2)
             else (Some device, t1 @ t2)
         | Inl err \<Rightarrow> (Some device, t1 @ t2))
      else (None, t1))"

fun GetUplinkRepresentor_loop ::
  "env \<Rightarrow> string \<Rightarrow> string list \<Rightarrow> (error + string) \<times> call list" where
  "GetUplinkRepresentor_loop env pciAddress [] =
     (Inl (Errorf (''uplink for '' @ pciAddress @ '' not found'')), [])"
| "GetUplinkRepresentor_loop env pciAddress (device # devices) =
     (case GetUplinkRepresentor_iter env device of
        (Some name, t) \<Rightarrow> (Inr name, t)
      | (None, t) \<Rightarrow>
          (case GetUplinkRepresentor_loop env pciAddress devices of
             (res, t') \<Rightarrow> (res, t @ t')))"

definition GetUplinkRepresentor :: "env \<Rightarrow> string \<Rightarrow> (error + string) \<times> call list" where
  "GetUplinkRepresentor env pciAddress =
     (let physfnPath = Join [PciSysDir env, pciAddress, ''physfn'', ''net''];
          devicePath =
            (case Stat env physfnPath of
               Some err \<Rightarrow>
                 if IsNotExist err then Join [PciSysDir env, pciAddress, ''net'']
                 else physfnPath
             | None \<Rightarrow> physfnPath);
          t0 = [StatCall physfnPath, ReadDirCall devicePath]
      in case ReadDir env devicePath of
           Inl err \<Rightarrow>
             (Inl (Errorf (''failed to lookup '' @ pciAddress @ '': '' @ Error err)), t0)
         | Inr devices \<Rightarrow>
             (case GetUplinkRepresentor_loop env pciAddress devices of
                (res, t) \<Rightarrow> (res, t0 @ t)))"

section \<open>GetVfRepresentor\<close>

text \<open>
  \<open>string(b)\<close> of a byte \<open>b\<close> is the UTF-8 text of the code point \<open>b\<close>: the byte
  itself below 128, two bytes from 128 on.
\<close>

definition byteString :: "char \<Rightarrow> string" where
  "byteString b =
     (if (of_char b :: int) < 128 then [b]
      else [char_of (192 + (of_char b :: int) div 64), char_of (128 + (of_char b :: int) mod 64)])"

text \<open>
  One round of the loop over the sibling devices: \<open>None\<close> when the round goes on to the
  next device, \<open>Some (Inr name)\<close> when it returns the device, \<open>Some (Inl p)\<close> when the
  index expression \<open>pfPCIAddress[len(pfPCIAddress)-1]\<close> panics on an empty address.
\<close>

definition GetVfRepresentor_iter ::
  "env \<Rightarrow> string \<Rightarrow> int \<Rightarrow> string \<Rightarrow> string \<Rightarrow> (error + string) option \<times> call list" where
  "GetVfRepresentor_iter env uplink vfIndex physSwitchID device =
     (let devicePath = Join [NetSysDir env, device];
          deviceSwIDFile = Join [devicePath, netdevPhysSwitchID];
          t1 = [ReadFileCall deviceSwIDFile]
      in case ReadFile env deviceSwIDFile of
           Inl err \<Rightarrow> (None, t1)
         | Inr deviceSwID \<Rightarrow>
             if deviceSwID \<noteq> physSwitchID then (None, t1)
             else
               (let (r, t2) = getNetDevPhysPortName env device in
                case r of
                  Inl err \<Rightarrow> (None, t1 @ t2)
                | Inr physPortNameStr \<Rightarrow>
                    (let (pfRepIndex, vfRepIndex, _) = parsePortName physPortNameStr;
                         ret = (if vfRepIndex = vfIndex then Some (Inr device) else None)
                     in if pfRepIndex \<noteq> - 1 then
                          (let t3 = [GetPCIFromDeviceNameCall uplink] in
                           case getPCIFromDeviceName env uplink of
                             Inl err \<Rightarrow> (None, t1 @ t2 @ t3)
                           | Inr pfPCIAddress \<Rightarrow>
                               if pfPCIAddress = []
                               then (Some (Inl (RuntimePanic ''index out of range [-1]'')),
                                     t1 @ t2 @ t3)
                               else
                                 (let (PCIFuncAddress, err) = Atoi (byteString (last pfPCIAddress))
                                  in if pfRepIndex \<noteq> PCIFuncAddress \<or> err \<noteq> None
                                     then (None, t1 @ t2 @ t3)
                                     else (ret, t1 @ t2 @ t3)))
                        else (ret, t1 @ t2))))"

fun GetVfRepresentor_loop ::
  "env \<Rightarrow> string \<Rightarrow> int \<Rightarrow> string \<Rightarrow> string list \<Rightarrow> (error + string) \<times> call list" where
  "GetVfRepresentor_loop env uplink vfIndex physSwitchID [] =
     (Inl (Errorf (''failed to find VF representor for uplink '' @ uplink)), [])"
| "GetVfRepresentor_loop env uplink vfIndex physSwitchID (device # devices) =
     (case GetVfRepresentor_iter env uplink vfIndex physSwitchID device of
        (Some res, t) \<Rightarrow> (res, t)
      | (None, t) \<Rightarrow>
          (case GetVfRepresentor_loop env uplink vfIndex physSwitchID devices of
             (res, t') \<Rightarrow> (res, t @ t')))"

definition GetVfRepresentor :: "env \<Rightarrow> string \<Rightarrow> int \<Rightarrow> (error + string) \<times> call list" where
  "GetVfRepresentor env uplink vfIndex =
     (let swIDFile = Join [NetSysDir env, uplink, netdevPhysSwitchID];
          t0 = [ReadFileCall swIDFile];
          cant = Errorf (''cant get uplink '' @ uplink @ '' switch id'')
      in case ReadFile env swIDFile of
           Inl err \<Rightarrow> (Inl cant, t0)
         | Inr physSwitchID \<Rightarrow>
             if physSwitchID = [] then (Inl cant, t0)
             else
               (let pfSubsystemPath = Join [NetSysDir env, uplink, ''subsystem''];
                    t1 = t0 @ [ReadDirCall pfSubsystemPath]
                in case ReadDir env pfSubsystemPath of
                     Inl err \<Rightarrow> (Inl (FsError err), t1)
                   | Inr devices \<Rightarrow>
                       (case GetVfRepresentor_loop env uplink vfIndex physSwitchID devices of
                          (res, t) \<Rightarrow> (res, t1 @ t))))"

section \<open>Decimal text and fixtures\<close>

text \<open>The decimal text of an integer, as \<open>%d\<close> and \<open>strconv.Itoa\<close> print it.\<close>

function decimal :: "int \<Rightarrow> string" where
  "decimal n =
     (if n < 10 then [char_of (48 + n)]
      else decimal (n div 10) @ [char_of (48 + n mod 10)])"
  by pat_completeness auto
termination
  by (relation "measure nat") auto

declare decimal.simps [simp del]

definition Itoa :: "int \<Rightarrow> string" where
  "Itoa i = (if i < 0 then CHR ''-'' # decimal (- i) else decimal i)"

text \<open>\<open>strings.Contains\<close>\<close>

fun Contains :: "string \<Rightarrow> string \<Rightarrow> bool" where
  "Contains [] substr = (substr = [])"
| "Contains (c # cs) substr = (prefix substr (c # cs) \<or> Contains cs substr)"

text \<open>
  An in-memory file system for the examples: files with their contents, directories with
  their entries, paths on which every operation is refused, and the PCI address of each
  network device. A path that is not listed does not exist.
\<close>

definition notExistError :: "string \<Rightarrow> fsError" where
  "notExistError path = FsErr True (path @ '': no such file or directory'')"

definition permissionError :: "string \<Rightarrow> fsError" where
  "permissionError path = FsErr False (path @ '': permission denied'')"

definition fixtureEnv ::
  "(string \<times> string) list \<Rightarrow> (string \<times> string list) list \<Rightarrow> string list \<Rightarrow>
   (string \<times> string) list \<Rightarrow> env" where
  "fixtureEnv files dirs denied pcis =
     \<lparr> NetSysDir = ''/sys/class/net'',
       PciSysDir = ''/sys/bus/pci/devices'',
       ReadFile = (\<lambda>path.
         if path \<in> set denied then Inl (permissionError path)
         else (case map_of files path of
                 Some content \<Rightarrow> Inr content
               | None \<Rightarrow> Inl (notExistError path))),
       ReadDir = (\<lambda>path.
         if path \<in> set denied then Inl (permissionError path)
         else (case map_of dirs path of
                 Some names \<Rightarrow> Inr names
               | None \<Rightarrow> Inl (notExistError path))),
       Stat = (\<lambda>path.
         if path \<in> set denied then Some (permissionError path)
         else if map_of files path \<noteq> None \<or> map_of dirs path \<noteq> None then None
         else Some (notExistError path)),
       getPCIFromDeviceName = (\<lambda>name.
         case map_of pcis name of
           Some address \<Rightarrow> Inr address
         | None \<Rightarrow> Inl (Errorf ''could not find PCI Address'')) \<rparr>"

text \<open>
  The uplink \<open>p0\<close> of switch \<open>sw1\<close> on PCI function 0, with the siblings \<open>pf0vf0\<close>
  (same switch), \<open>pf0vf1\<close> (another switch) and \<open>eth5\<close> (same switch, a port name
  that is no representor name); the virtual function \<open>0000:03:00.4\<close> has \<open>p0\<close> as the
  only network device of its physical function.
\<close>

definition switchFixture :: env where
  "switchFixture = fixtureEnv
     [(''/sys/class/net/p0/phys_switch_id'', ''sw1''),
      (''/sys/class/net/p0/phys_port_name'', ''p0'' @ [CHR 0x0A]),
      (''/sys/class/net/pf0vf0/phys_switch_id'', ''sw1''),
      (''/sys/class/net/pf0vf0/phys_port_name'', ''pf0vf0'' @ [CHR 0x0A]),
      (''/sys/class/net/pf0vf1/phys_switch_id'', ''sw2''),
      (''/sys/class/net/pf0vf1/phys_port_name'', ''pf0vf1'' @ [CHR 0x0A]),
      (''/sys/class/net/eth5/phys_switch_id'', ''sw1''),
      (''/sys/class/net/eth5/phys_port_name'', ''garbage'' @ [CHR 0x0A])]
     [(''/sys/class/net/p0/subsystem'', [''eth5'', ''p0'', ''pf0vf0'', ''pf0vf1'']),
      (''/sys/bus/pci/devices/0000:03:00.4/physfn/net'', [''p0''])]
     []
     [(''p0'', ''0000:03:00.0'')]"

text \<open>An uplink whose switch identifier reads as the empty string.\<close>

definition emptySwitchIdFixture :: env where
  "emptySwitchIdFixture = fixtureEnv
     [(''/sys/class/net/p0/phys_switch_id'', [])]
     [(''/sys/class/net/p0/subsystem'', [''p0''])]
     []
     []"

text \<open>
  A virtual function whose \<open>physfn/net\<close> directory may not be read, while its own
  \<open>net\<close> directory holds a device.
\<close>

definition deniedFixture :: env where
  "deniedFixture = fixtureEnv
     [(''/sys/class/net/p0/phys_switch_id'', ''sw1'')]
     [(''/sys/bus/pci/devices/0000:03:00.4/net'', [''p0''])]
     [''/sys/bus/pci/devices/0000:03:00.4/physfn/net'']
     []"

section \<open>Properties\<close>

subsection \<open>Text helpers\<close>

lemma Contains_prefix: "prefix sub s \<Longrightarrow> Contains s sub"
  by (cases s) simp_all

lemma Contains_append: "Contains (a @ sub @ b) sub"
  by (induction a) (simp_all add: Contains_prefix)

subsection \<open>GetVfRepresentor on an uplink without a switch identifier\<close>

text \<open>
  Claim C9. When the switch-identifier attribute of the uplink cannot be read, or reads
  as the empty string, \<open>GetVfRepresentor\<close> fails at once with the error
  \<open>cant get uplink <uplink> switch id\<close>: the message names the uplink, the error differs
  from the error of a search without a match, and the only call made to the file system
  is the read of that attribute, so no directory is listed.
\<close>

theorem GetVfRepresentor_without_switch_id:
  assumes "(\<exists>err. ReadFile env (Join [NetSysDir env, uplink, netdevPhysSwitchID]) = Inl err)
           \<or> ReadFile env (Join [NetSysDir env, uplink, netdevPhysSwitchID]) = Inr []"
  shows "GetVfRepresentor env uplink vfIndex =
           (Inl (Errorf (''cant get uplink '' @ uplink @ '' switch id'')),
            [ReadFileCall (Join [NetSysDir env, uplink, netdevPhysSwitchID])])
         \<and> Contains (''cant get uplink '' @ uplink @ '' switch id'') uplink
         \<and> Errorf (''cant get uplink '' @ uplink @ '' switch id'')
             \<noteq> Errorf (''failed to find VF representor for uplink '' @ uplink)
         \<and> (\<forall>path. ReadDirCall path \<notin> set (snd (GetVfRepresentor env uplink vfIndex)))"
proof -
  have res: "GetVfRepresentor env uplink vfIndex =
           (Inl (Errorf (''cant get uplink '' @ uplink @ '' switch id'')),
            [ReadFileCall (Join [NetSysDir env, uplink, netdevPhysSwitchID])])"
    using assms by (auto simp: GetVfRepresentor_def Let_def)
  have names: "Contains (''cant get uplink '' @ uplink @ '' switch id'') uplink"
    by (rule Contains_append)
  show ?thesis
    using res names by simp
qed

theorem GetVfRepresentor_without_switch_id_witness:
  "GetVfRepresentor emptySwitchIdFixture ''p0'' 0 =
     (Inl (Errorf ''cant get uplink p0 switch id''),
      [ReadFileCall ''/sys/class/net/p0/phys_switch_id''])
   \<and> GetVfRepresentor switchFixture ''p1'' 0 =
     (Inl (Errorf ''cant get uplink p1 switch id''),
      [ReadFileCall ''/sys/class/net/p1/phys_switch_id''])"
proof -
  have p0: "Join [NetSysDir emptySwitchIdFixture, ''p0'', netdevPhysSwitchID]
              = ''/sys/class/net/p0/phys_switch_id''"
    by code_simp
  have p1: "Join [NetSysDir switchFixture, ''p1'', netdevPhysSwitchID]
              = ''/sys/class/net/p1/phys_switch_id''"
    by code_simp
  have empty: "ReadFile emptySwitchIdFixture ''/sys/class/net/p0/phys_switch_id'' = Inr []"
    by code_simp
  have missing: "ReadFile switchFixture ''/sys/class/net/p1/phys_switch_id''
                   = Inl (notExistError ''/sys/class/net/p1/phys_switch_id'')"
    by code_simp
  have "GetVfRepresentor emptySwitchIdFixture ''p0'' 0 =
     (Inl (Errorf (''cant get uplink '' @ ''p0'' @ '' switch id'')),
      [ReadFileCall (Join [NetSysDir emptySwitchIdFixture, ''p0'', netdevPhysSwitchID])])"
    using GetVfRepresentor_without_switch_id [of emptySwitchIdFixture "''p0''" 0] empty p0
    by simp
  moreover have "GetVfRepresentor switchFixture ''p1'' 0 =
     (Inl (Errorf (''cant get uplink '' @ ''p1'' @ '' switch id'')),
      [ReadFileCall (Join [NetSysDir switchFixture, ''p1'', netdevPhysSwitchID])])"
    using GetVfRepresentor_without_switch_id [of switchFixture "''p1''" 0] missing p1
    by simp
  ultimately show ?thesis
    by (simp add: p0 p1)
qed

end
